theory Spec2Isabelle
  imports Complex_Main "HOL-Library.Sublist"
begin

section \<open>Python strings\<close>

text \<open>
  A Python \<open>str\<close> is a sequence of code points. It is modelled as a \<open>string\<close>, each
  \<open>char\<close> standing for one code point in the range 0..255; on that range
  \<open>str.lower\<close> and \<open>str.strip\<close> act character by character as written below. Code
  points above 255 are outside the model.
\<close>

definition is_space :: "char \<Rightarrow> bool" where
  "is_space c = (of_char c \<in> {9, 10, 11, 12, 13, 28, 29, 30, 31, 32, 133, 160 :: nat})"

definition strip :: "string \<Rightarrow> string" where
  "strip s = rev (dropWhile is_space (rev (dropWhile is_space s)))"

definition lower_char :: "char \<Rightarrow> char" where
  "lower_char c =
     (let n = (of_char c :: nat)
      in if (65 \<le> n \<and> n \<le> 90) \<or> (192 \<le> n \<and> n \<le> 222 \<and> n \<noteq> 215)
         then char_of (n + 32) else c)"

definition lower :: "string \<Rightarrow> string" where
  "lower s = map lower_char s"

text \<open>\<open>s.split(sep)\<close> for a one-character separator: always at least one piece.\<close>

fun split_on :: "char \<Rightarrow> string \<Rightarrow> string list" where
  "split_on sep [] = [[]]"
| "split_on sep (c # cs) =
     (if c = sep then [] # split_on sep cs
      else (case split_on sep cs of [] \<Rightarrow> [[c]] | p # ps \<Rightarrow> (c # p) # ps))"

text \<open>\<open>kw in s\<close> on strings: \<open>kw\<close> occurs in \<open>s\<close> as a contiguous run.\<close>

fun py_in :: "string \<Rightarrow> string \<Rightarrow> bool" where
  "py_in kw [] = (kw = [])"
| "py_in kw (c # cs) = (prefix kw (c # cs) \<or> py_in kw cs)"

text \<open>\<open>sep.join(parts)\<close>.\<close>

fun join :: "string \<Rightarrow> string list \<Rightarrow> string" where
  "join sep [] = []"
| "join sep [x] = x"
| "join sep (x # y # ys) = x @ sep @ join sep (y # ys)"

section \<open>Python values as decoded from JSON\<close>

datatype py_error = TypeError | AttributeError | ValueError | ZoneInfoNotFoundError

text \<open>
  What \<open>resp.json()\<close> can return. A \<open>PDict\<close> holds the items of a dict; a key is looked
  up with \<open>map_of\<close>.
\<close>

datatype pyval =
    PNone
  | PBool bool
  | PInt int
  | PFloat real
  | PStr string
  | PList "pyval list"
  | PDict "(string \<times> pyval) list"

fun truthy :: "pyval \<Rightarrow> bool" where
  "truthy PNone = False"
| "truthy (PBool b) = b"
| "truthy (PInt i) = (i \<noteq> 0)"
| "truthy (PFloat r) = (r \<noteq> 0)"
| "truthy (PStr s) = (s \<noteq> [])"
| "truthy (PList xs) = (xs \<noteq> [])"
| "truthy (PDict kvs) = (kvs \<noteq> [])"

text \<open>\<open>a or b\<close>: the first operand when it is truthy, the second otherwise.\<close>

definition py_or :: "pyval \<Rightarrow> pyval \<Rightarrow> pyval" where
  "py_or a b = (if truthy a then a else b)"

text \<open>\<open>d.get(k)\<close> and \<open>d.get(k, default)\<close> on the items of a dict.\<close>

definition dict_get :: "(string \<times> pyval) list \<Rightarrow> string \<Rightarrow> pyval" where
  "dict_get kvs k = (case map_of kvs k of None \<Rightarrow> PNone | Some v \<Rightarrow> v)"

definition dict_get_default :: "(string \<times> pyval) list \<Rightarrow> string \<Rightarrow> pyval \<Rightarrow> pyval" where
  "dict_get_default kvs k d = (case map_of kvs k of None \<Rightarrow> d | Some v \<Rightarrow> v)"

text \<open>\<open>v.strip()\<close>: only a \<open>str\<close> has the method, anything else raises.\<close>

definition val_strip :: "pyval \<Rightarrow> py_error + string" where
  "val_strip v = (case v of PStr s \<Rightarrow> Inr (strip s) | _ \<Rightarrow> Inl AttributeError)"

text \<open>
  \<open>jobs[1:]\<close> followed by iteration: a list gives its elements from index 1 on, a
  \<open>str\<close> its characters from index 1 on, any other value cannot be sliced.
\<close>

definition slice_from_1 :: "pyval \<Rightarrow> py_error + pyval list" where
  "slice_from_1 v =
     (case v of
        PList xs \<Rightarrow> Inr (drop 1 xs)
      | PStr s \<Rightarrow> Inr (map (\<lambda>c. PStr [c]) (drop 1 s))
      | _ \<Rightarrow> Inl TypeError)"

section \<open>Configuration\<close>

record config =
  SENDER_EMAIL :: "string option"
  SENDER_PASSWORD :: "string option"
  RECEIVER_EMAIL :: "string option"
  TIMEZONE :: string
  TARGET_HOUR :: int
  REMOTEOK_API :: string
  KEYWORDS :: "string list"

definition default_keywords :: string where
  "default_keywords =
     ''program analyst,software developer,data warehouse,data management,intern,entry level,junior,data engineer''"

text \<open>The comprehension of lines 25-28 on the raw comma-separated text.\<close>

definition parse_keywords :: "string \<Rightarrow> string list" where
  "parse_keywords raw =
     map (\<lambda>k. lower (strip k)) (filter (\<lambda>k. strip k \<noteq> []) (split_on CHR '','' raw))"

definition environ_get :: "(string \<rightharpoonup> string) \<Rightarrow> string \<Rightarrow> string \<Rightarrow> string" where
  "environ_get environ k d = (case environ k of None \<Rightarrow> d | Some v \<Rightarrow> v)"

text \<open>
  The module-level assignments of lines 19-28. The built-in \<open>int()\<close> is a parameter:
  \<open>None\<close> where it raises \<open>ValueError\<close>, which nothing catches.
\<close>

definition load_config ::
  "(string \<Rightarrow> int option) \<Rightarrow> (string \<rightharpoonup> string) \<Rightarrow> py_error + config" where
  "load_config py_int environ =
     (case py_int (environ_get environ ''TARGET_HOUR'' ''12'') of
        None \<Rightarrow> Inl ValueError
      | Some h \<Rightarrow>
          Inr \<lparr>SENDER_EMAIL = environ ''SENDER_EMAIL'',
               SENDER_PASSWORD = environ ''SENDER_PASSWORD'',
               RECEIVER_EMAIL =
                 (case environ ''RECEIVER_EMAIL'' of
                    None \<Rightarrow> environ ''SENDER_EMAIL'' | Some r \<Rightarrow> Some r),
               TIMEZONE = environ_get environ ''TIMEZONE'' ''America/Chicago'',
               TARGET_HOUR = h,
               REMOTEOK_API = environ_get environ ''REMOTEOK_API'' ''https://remoteok.io/api'',
               KEYWORDS = parse_keywords (environ_get environ ''KEYWORDS'' default_keywords)\<rparr>)"

section \<open>The world outside the process\<close>

record response =
  status_code :: nat
  json :: "pyval option"

datatype smtp_step = Connect | Starttls | Login | Sendmail | Quit

text \<open>
  Everything the run reads from outside: whether \<open>zoneinfo\<close> could be imported, the
  current instant in seconds since the epoch, the UTC offset in seconds of a named
  zone at that instant (or the exception \<open>ZoneInfo(name)\<close> raises:
  \<open>ZoneInfoNotFoundError\<close> for an unknown key, \<open>ValueError\<close> for a malformed
  one), the answer of the
  HTTP server (\<open>None\<close> where \<open>requests.get\<close> raises; \<open>json\<close> is \<open>None\<close> where
  \<open>resp.json()\<close> raises), the SMTP call that raises if any, and the built-in \<open>str()\<close>
  on values that are not strings.
\<close>

record world =
  zoneinfo_present :: bool
  utc_now :: int
  utc_offset :: "string \<Rightarrow> py_error + int"
  http_get :: "string \<Rightarrow> response option"
  smtp_failure :: "smtp_step option"
  py_str :: "pyval \<Rightarrow> string"

datatype log_line =
    InfoLocalTime
  | ErrorFetchFailed
  | InfoEmailSent nat
  | ErrorSendFailed
  | ErrorSecretsMissing
  | InfoNotTargetHour

text \<open>
  The message handed to \<open>sendmail\<close>: its text is \<open>Subject: Daily Remote Jobs\<close>, a
  dash, the ISO date of \<open>stamp\<close>, an empty line and \<open>body\<close>.
\<close>

record message =
  stamp :: int
  body :: string

datatype event =
    Log log_line
  | HttpGet string
  | SmtpConnect
  | SmtpStarttls
  | SmtpLogin "string option" "string option"
  | SmtpSendmail "string option" "string option" message
  | SmtpQuit

fun is_network :: "event \<Rightarrow> bool" where
  "is_network (Log l) = False"
| "is_network e = True"

section \<open>Time gate\<close>

text \<open>
  A \<open>datetime\<close> is kept as its wall-clock seconds since the epoch; \<open>hour\<close> is the
  hour of day that \<open>datetime.hour\<close> reads from it.
\<close>

definition hour :: "int \<Rightarrow> int" where
  "hour t = (t div 3600) mod 24"

definition local_now :: "config \<Rightarrow> world \<Rightarrow> py_error + int" where
  "local_now cfg w =
     (if zoneinfo_present w
      then (case utc_offset w (TIMEZONE cfg) of
              Inl e \<Rightarrow> Inl e
            | Inr off \<Rightarrow> Inr (utc_now w + off))
      else Inr (utc_now w))"

definition is_target_time :: "config \<Rightarrow> world \<Rightarrow> event list \<times> (py_error + bool)" where
  "is_target_time cfg w =
     (case local_now cfg w of
        Inl e \<Rightarrow> ([], Inl e)
      | Inr now \<Rightarrow> ([Log InfoLocalTime], Inr (hour now = TARGET_HOUR cfg)))"

section \<open>Fetcher and filter\<close>

record posting =
  title :: string
  company :: string
  link :: pyval

text \<open>Lines 51-53: the three fields of one raw record, in the order the code reads them.\<close>

definition normalize :: "pyval \<Rightarrow> py_error + posting" where
  "normalize j =
     (case j of
        PDict kvs \<Rightarrow>
          (case val_strip (py_or (py_or (dict_get kvs ''position'') (dict_get kvs ''title''))
                                 (PStr [])) of
             Inl e \<Rightarrow> Inl e
           | Inr t \<Rightarrow>
               (case val_strip (dict_get_default kvs ''company'' (PStr [])) of
                  Inl e \<Rightarrow> Inl e
                | Inr c \<Rightarrow>
                    Inr \<lparr>title = t, company = c,
                         link = py_or (py_or (dict_get kvs ''url'') (dict_get kvs ''apply_url''))
                                      (PStr [])\<rparr>))
      | _ \<Rightarrow> Inl AttributeError)"

text \<open>Line 54: \<open>any(kw in title.lower() for kw in KEYWORDS)\<close>.\<close>

definition matches :: "string list \<Rightarrow> string \<Rightarrow> bool" where
  "matches kws t = list_ex (\<lambda>kw. py_in kw (lower t)) kws"

text \<open>The loop of lines 50-55 with its accumulator \<open>results\<close>.\<close>

fun fetch_loop :: "string list \<Rightarrow> pyval list \<Rightarrow> posting list \<Rightarrow> py_error + posting list" where
  "fetch_loop kws [] results = Inr results"
| "fetch_loop kws (j # js) results =
     (case normalize j of
        Inl e \<Rightarrow> Inl e
      | Inr p \<Rightarrow> fetch_loop kws js (if matches kws (title p) then results @ [p] else results))"

definition raise_for_status :: "response \<Rightarrow> bool" where
  "raise_for_status resp = (400 \<le> status_code resp \<and> status_code resp < 600)"

definition fetch_jobs :: "config \<Rightarrow> world \<Rightarrow> event list \<times> (py_error + posting list)" where
  "fetch_jobs cfg w =
     (case http_get w (REMOTEOK_API cfg) of
        None \<Rightarrow> ([HttpGet (REMOTEOK_API cfg), Log ErrorFetchFailed], Inr [])
      | Some resp \<Rightarrow>
          if raise_for_status resp
          then ([HttpGet (REMOTEOK_API cfg), Log ErrorFetchFailed], Inr [])
          else (case json resp of
                  None \<Rightarrow> ([HttpGet (REMOTEOK_API cfg), Log ErrorFetchFailed], Inr [])
                | Some jobs \<Rightarrow>
                    ([HttpGet (REMOTEOK_API cfg)],
                     (case slice_from_1 jobs of
                        Inl e \<Rightarrow> Inl e
                      | Inr js \<Rightarrow> fetch_loop (KEYWORDS cfg) js []))))"

section \<open>Notifier\<close>

definition format_value :: "(pyval \<Rightarrow> string) \<Rightarrow> pyval \<Rightarrow> string" where
  "format_value str_of v = (case v of PStr s \<Rightarrow> s | _ \<Rightarrow> str_of v)"

text \<open>Line 65: the text appended to \<open>parts\<close> for one posting.\<close>

definition block :: "(pyval \<Rightarrow> string) \<Rightarrow> posting \<Rightarrow> string" where
  "block str_of j =
     title j @ '' at '' @ company j @ ''\<newline>Apply: '' @ format_value str_of (link j) @ ''\<newline>''"

definition email_body :: "(pyval \<Rightarrow> string) \<Rightarrow> posting list \<Rightarrow> string" where
  "email_body str_of jobs =
     (if jobs = [] then ''No matching jobs found today.''
      else join ''\<newline>'' (map (block str_of) jobs))"

definition smtp_calls :: "config \<Rightarrow> message \<Rightarrow> event list" where
  "smtp_calls cfg msg =
     [SmtpConnect, SmtpStarttls, SmtpLogin (SENDER_EMAIL cfg) (SENDER_PASSWORD cfg),
      SmtpSendmail (SENDER_EMAIL cfg) (RECEIVER_EMAIL cfg) msg, SmtpQuit]"

fun step_index :: "smtp_step \<Rightarrow> nat" where
  "step_index Connect = 0"
| "step_index Starttls = 1"
| "step_index Login = 2"
| "step_index Sendmail = 3"
| "step_index Quit = 4"

text \<open>
  Lines 58-76. The calls of the \<open>try\<close> block run up to and including the one that
  raises; the handler logs and returns. Only \<open>local_now\<close>, outside the \<open>try\<close>, can
  make \<open>send_email\<close> itself raise.
\<close>

definition send_email :: "config \<Rightarrow> world \<Rightarrow> posting list \<Rightarrow> event list \<times> (py_error + unit)" where
  "send_email cfg w jobs =
     (case local_now cfg w of
        Inl e \<Rightarrow> ([], Inl e)
      | Inr now \<Rightarrow>
          (let msg = \<lparr>stamp = now, body = email_body (py_str w) jobs\<rparr>
           in case smtp_failure w of
                None \<Rightarrow> (smtp_calls cfg msg @ [Log (InfoEmailSent (length jobs))], Inr ())
              | Some s \<Rightarrow>
                  (take (Suc (step_index s)) (smtp_calls cfg msg) @ [Log ErrorSendFailed],
                   Inr ())))"

section \<open>Entry point\<close>

record outcome =
  exit_status :: nat
  trace :: "event list"

definition secret_set :: "string option \<Rightarrow> bool" where
  "secret_set s = (case s of None \<Rightarrow> False | Some v \<Rightarrow> v \<noteq> [])"

text \<open>
  Lines 78-86. \<open>sys.exit(1)\<close> and an exception nothing catches both end the process
  with status 1; returning from \<open>main\<close> ends it with status 0.
\<close>

definition main :: "config \<Rightarrow> world \<Rightarrow> outcome" where
  "main cfg w =
     (if \<not> (secret_set (SENDER_EMAIL cfg) \<and> secret_set (SENDER_PASSWORD cfg))
      then \<lparr>exit_status = 1, trace = [Log ErrorSecretsMissing]\<rparr>
      else (case is_target_time cfg w of
              (ev1, Inl e) \<Rightarrow> \<lparr>exit_status = 1, trace = ev1\<rparr>
            | (ev1, Inr False) \<Rightarrow> \<lparr>exit_status = 0, trace = ev1 @ [Log InfoNotTargetHour]\<rparr>
            | (ev1, Inr True) \<Rightarrow>
                (case fetch_jobs cfg w of
                   (ev2, Inl e) \<Rightarrow> \<lparr>exit_status = 1, trace = ev1 @ ev2\<rparr>
                 | (ev2, Inr jobs) \<Rightarrow>
                     (case send_email cfg w jobs of
                        (ev3, Inl e) \<Rightarrow> \<lparr>exit_status = 1, trace = ev1 @ ev2 @ ev3\<rparr>
                      | (ev3, Inr u) \<Rightarrow> \<lparr>exit_status = 0, trace = ev1 @ ev2 @ ev3\<rparr>))))"

text \<open>The whole process: the module-level configuration, then \<open>main\<close>.\<close>

definition run :: "(string \<Rightarrow> int option) \<Rightarrow> (string \<rightharpoonup> string) \<Rightarrow> world \<Rightarrow> outcome" where
  "run py_int environ w =
     (case load_config py_int environ of
        Inl e \<Rightarrow> \<lparr>exit_status = 1, trace = []\<rparr>
      | Inr cfg \<Rightarrow> main cfg w)"

section \<open>Sample inputs\<close>

definition sample_config :: config where
  "sample_config =
     \<lparr>SENDER_EMAIL = Some ''me@example.org'',
      SENDER_PASSWORD = Some ''app-password'',
      RECEIVER_EMAIL = Some ''me@example.org'',
      TIMEZONE = ''America/Chicago'',
      TARGET_HOUR = 12,
      REMOTEOK_API = ''https://remoteok.io/api'',
      KEYWORDS = [''junior'', ''data engineer'']\<rparr>"

definition acme_record :: pyval where
  "acme_record =
     PDict [(''position'', PStr ''Junior Data Engineer''), (''company'', PStr ''Acme''),
            (''url'', PStr ''http://x'')]"

definition acme_posting :: posting where
  "acme_posting = \<lparr>title = ''Junior Data Engineer'', company = ''Acme'', link = PStr ''http://x''\<rparr>"

definition chef_record :: pyval where
  "chef_record = PDict [(''title'', PStr '' Chef ''), (''apply_url'', PStr ''http://y'')]"

definition chef_posting :: posting where
  "chef_posting = \<lparr>title = ''Chef'', company = [], link = PStr ''http://y''\<rparr>"

text \<open>A record whose \<open>company\<close> is JSON \<open>null\<close>.\<close>

definition null_company_record :: pyval where
  "null_company_record =
     PDict [(''position'', PStr ''Data Engineer''), (''company'', PNone),
            (''url'', PStr ''http://x'')]"

definition sample_response :: "pyval list \<Rightarrow> response" where
  "sample_response raw = \<lparr>status_code = 200, json = Some (PList raw)\<rparr>"

text \<open>
  18:00 UTC, which is 12:00 in a zone six hours behind; the server answers with the
  given feed and every SMTP call succeeds.
\<close>

definition sample_world :: "pyval list \<Rightarrow> world" where
  "sample_world raw =
     \<lparr>zoneinfo_present = True,
      utc_now = 1793728800,
      utc_offset =
        (\<lambda>z. if z = ''America/Chicago'' then Inr (- 21600)
             else if z = [] then Inl ValueError else Inl ZoneInfoNotFoundError),
      http_get = (\<lambda>url. Some (sample_response raw)),
      smtp_failure = None,
      py_str = (\<lambda>v. ''?'')\<rparr>"

text \<open>A record whose \<open>position\<close> is JSON \<open>null\<close> and whose \<open>title\<close> is set.\<close>

definition null_position_record :: pyval where
  "null_position_record =
     PDict [(''position'', PNone), (''title'', PStr ''Data Engineer''),
            (''company'', PStr ''Acme''), (''url'', PStr ''http://x'')]"

definition null_position_posting :: posting where
  "null_position_posting = \<lparr>title = ''Data Engineer'', company = ''Acme'', link = PStr ''http://x''\<rparr>"

text \<open>The same instant with a server that answers 200 with the given decoded body.\<close>

definition body_world :: "pyval \<Rightarrow> world" where
  "body_world b =
     (sample_world [])\<lparr>http_get := (\<lambda>url. Some \<lparr>status_code = 200, json = Some b\<rparr>)\<rparr>"

text \<open>A JSON object in place of the feed, as an API sends to report an error.\<close>

definition error_body :: pyval where
  "error_body = PDict [(''error'', PStr ''rate limited'')]"

text \<open>The same instant with a 200 answer whose body is not JSON.\<close>

definition undecodable_world :: world where
  "undecodable_world =
     (sample_world [])\<lparr>http_get := (\<lambda>url. Some \<lparr>status_code = 200, json = None\<rparr>)\<rparr>"

definition no_jobs_message :: "int \<Rightarrow> message" where
  "no_jobs_message now = \<lparr>stamp = now, body = ''No matching jobs found today.''\<rparr>"

section \<open>Properties of the string operations\<close>

lemma py_in_sublist: "py_in kw s = sublist kw s"
  by (induction s) (auto simp: sublist_Cons_right)

lemma matches_iff: "matches kws t = (\<exists>k\<in>set kws. \<exists>pre suf. lower t = pre @ k @ suf)"
  by (auto simp: matches_def list_ex_iff py_in_sublist sublist_def)






lemma hour_range: "0 \<le> hour t \<and> hour t \<le> 23"
  by (simp add: hour_def)

section \<open>Properties of the filter loop\<close>

text \<open>When every raw record normalises, the loop is a filter over the postings.\<close>

lemma fetch_loop_filter:
  "map normalize js = map Inr ps \<Longrightarrow>
   fetch_loop kws js acc = Inr (acc @ filter (\<lambda>p. matches kws (title p)) ps)"
proof (induction js arbitrary: ps acc)
  case Nil
  then show ?case by simp
next
  case (Cons j js)
  then obtain p ps' where ps: "ps = p # ps'" "normalize j = Inr p" "map normalize js = map Inr ps'"
    by (cases ps) auto
  show ?case using Cons.IH[OF ps(3)] ps(1,2) by simp
qed



section \<open>Evaluation on the sample inputs\<close>

lemma normalize_samples:
  "normalize acme_record = Inr acme_posting"
  "normalize chef_record = Inr chef_posting"
  "normalize null_company_record = Inl AttributeError"
  by (simp_all add: normalize_def val_strip_def py_or_def dict_get_def dict_get_default_def
      strip_def is_space_def acme_record_def acme_posting_def chef_record_def chef_posting_def
      null_company_record_def)

lemma sample_local_now: "local_now sample_config (sample_world raw) = Inr 1793707200"
  by (simp add: local_now_def sample_config_def sample_world_def)

lemma sample_hour: "hour 1793707200 = 12"
  by (simp add: hour_def)

section \<open>Properties of the run\<close>

lemma send_email_empty:
  assumes "local_now cfg w = Inr now"
  shows "send_email cfg w [] =
     (case smtp_failure w of
        None \<Rightarrow> smtp_calls cfg (no_jobs_message now) @ [Log (InfoEmailSent 0)]
      | Some s \<Rightarrow> take (Suc (step_index s)) (smtp_calls cfg (no_jobs_message now)) @ [Log ErrorSendFailed],
      Inr ())"
  using assms by (simp add: send_email_def email_body_def no_jobs_message_def split: option.splits)

text \<open>
  With both secrets set and a zone that resolves, the only way to a non-zero exit
  status is an exception raised by \<open>fetch_jobs\<close> after the response was decoded.
\<close>

lemma main_exit_status:
  assumes "secret_set (SENDER_EMAIL cfg)" and "secret_set (SENDER_PASSWORD cfg)"
    and "local_now cfg w = Inr now"
  shows "exit_status (main cfg w) =
     (if hour now = TARGET_HOUR cfg \<and> (\<exists>e. snd (fetch_jobs cfg w) = Inl e) then 1 else 0)"
  using assms
  by (auto simp: main_def is_target_time_def send_email_def Let_def
      split: prod.splits sum.splits option.splits bool.splits)

text \<open>
  The failures the \<open>try\<close> block of \<open>fetch_jobs\<close> does catch: the request raises,
  the status lies in 400..599, or the body is not JSON.
\<close>

lemma caught_fetch_failures_give_empty_list:
  assumes "http_get w (REMOTEOK_API cfg) = None
     \<or> (\<exists>resp. http_get w (REMOTEOK_API cfg) = Some resp \<and> (raise_for_status resp \<or> json resp = None))"
  shows "fetch_jobs cfg w = ([HttpGet (REMOTEOK_API cfg), Log ErrorFetchFailed], Inr [])
    \<and> (secret_set (SENDER_EMAIL cfg) \<and> secret_set (SENDER_PASSWORD cfg)
         \<and> local_now cfg w = Inr now \<and> hour now = TARGET_HOUR cfg \<longrightarrow>
       main cfg w =
         \<lparr>exit_status = 0,
          trace = [Log InfoLocalTime, HttpGet (REMOTEOK_API cfg), Log ErrorFetchFailed] @
            (case smtp_failure w of
               None \<Rightarrow> smtp_calls cfg (no_jobs_message now) @ [Log (InfoEmailSent 0)]
             | Some s \<Rightarrow> take (Suc (step_index s)) (smtp_calls cfg (no_jobs_message now))
                          @ [Log ErrorSendFailed])\<rparr>)"
proof -
  have f: "fetch_jobs cfg w = ([HttpGet (REMOTEOK_API cfg), Log ErrorFetchFailed], Inr [])"
    using assms by (auto simp: fetch_jobs_def)
  show ?thesis
  proof (intro conjI impI)
    show "fetch_jobs cfg w = ([HttpGet (REMOTEOK_API cfg), Log ErrorFetchFailed], Inr [])" by (rule f)
  next
    assume a: "secret_set (SENDER_EMAIL cfg) \<and> secret_set (SENDER_PASSWORD cfg)
         \<and> local_now cfg w = Inr now \<and> hour now = TARGET_HOUR cfg"
    then have g: "is_target_time cfg w = ([Log InfoLocalTime], Inr True)"
      by (simp add: is_target_time_def)
    from a have s: "local_now cfg w = Inr now" by simp
    show "main cfg w =
         \<lparr>exit_status = 0,
          trace = [Log InfoLocalTime, HttpGet (REMOTEOK_API cfg), Log ErrorFetchFailed] @
            (case smtp_failure w of
               None \<Rightarrow> smtp_calls cfg (no_jobs_message now) @ [Log (InfoEmailSent 0)]
             | Some s \<Rightarrow> take (Suc (step_index s)) (smtp_calls cfg (no_jobs_message now))
                          @ [Log ErrorSendFailed])\<rparr>"
      using a by (simp add: main_def g f send_email_empty[OF s])
  qed
qed

section \<open>The claims\<close>

text \<open>
  C1. For every keyword list and every feed whose records normalise, the loop of
  \<open>fetch_jobs\<close> returns exactly the postings whose lowercased title contains some
  keyword as a contiguous substring, in feed order; with no keywords it returns
  no posting at all.
\<close>

theorem filter_retains_iff_keyword_substring:
  assumes "map normalize js = map Inr ps"
  shows "fetch_loop kws js [] =
           Inr (filter (\<lambda>p. \<exists>k\<in>set kws. \<exists>pre suf. lower (title p) = pre @ k @ suf) ps)
         \<and> fetch_loop [] js [] = Inr []"
proof -
  have "fetch_loop kws js [] = Inr (filter (\<lambda>p. matches kws (title p)) ps)"
    using fetch_loop_filter[OF assms, of kws "[]"] by simp
  moreover have "fetch_loop [] js [] = Inr (filter (\<lambda>p. matches [] (title p)) ps)"
    using fetch_loop_filter[OF assms, of "[]" "[]"] by simp
  ultimately show ?thesis by (simp add: matches_iff)
qed

theorem filter_retains_iff_keyword_substring_witness:
  "map normalize [acme_record, chef_record] = map Inr [acme_posting, chef_posting]
   \<and> fetch_loop [''data engineer''] [acme_record, chef_record] [] =
       Inr (filter (\<lambda>p. \<exists>k\<in>set [''data engineer'']. \<exists>pre suf. lower (title p) = pre @ k @ suf)
              [acme_posting, chef_posting])
   \<and> fetch_loop [''data engineer''] [acme_record, chef_record] [] = Inr [acme_posting]
   \<and> fetch_loop [] [acme_record, chef_record] [] = Inr []"
proof -
  have h: "map normalize [acme_record, chef_record] = map Inr [acme_posting, chef_posting]"
    by (simp add: normalize_samples)
  have e: "fetch_loop [''data engineer''] [acme_record, chef_record] [] = Inr [acme_posting]"
    by code_simp
  show ?thesis
    using h e filter_retains_iff_keyword_substring [OF h, of "[''data engineer'']"] by simp
qed

text \<open>
  C2. The claim is that every failure to fetch or parse the response is caught and
  gives the empty posting list, after which the run sends the "no matching jobs"
  email and ends with status 0. A body that is not JSON is caught so. A body that
  is JSON but not a sequence of records is not: with both secrets set at the target
  hour and a 200 answer whose body is the object \<open>{"error": "rate limited"}\<close>, or
  \<open>null\<close>, \<open>jobs[1:]\<close> raises after the \<open>try\<close> block, \<open>fetch_jobs\<close> returns
  no list, nothing is sent and the status is 1.
\<close>

theorem non_sequence_body_is_not_caught:
  "fetch_jobs sample_config undecodable_world =
       ([HttpGet ''https://remoteok.io/api'', Log ErrorFetchFailed], Inr [])
   \<and> exit_status (main sample_config undecodable_world) = 0
   \<and> fetch_jobs sample_config (body_world error_body) =
       ([HttpGet ''https://remoteok.io/api''], Inl TypeError)
   \<and> main sample_config (body_world error_body) =
       \<lparr>exit_status = 1, trace = [Log InfoLocalTime, HttpGet ''https://remoteok.io/api'']\<rparr>
   \<and> fetch_jobs sample_config (body_world PNone) =
       ([HttpGet ''https://remoteok.io/api''], Inl TypeError)
   \<and> main sample_config (body_world PNone) =
       \<lparr>exit_status = 1, trace = [Log InfoLocalTime, HttpGet ''https://remoteok.io/api'']\<rparr>"
proof -
  have s: "secret_set (SENDER_EMAIL sample_config)" "secret_set (SENDER_PASSWORD sample_config)"
    by (simp_all add: sample_config_def secret_set_def)
  have u: "REMOTEOK_API sample_config = ''https://remoteok.io/api''"
    by (simp add: sample_config_def)
  have h: "TARGET_HOUR sample_config = 12" by (simp add: sample_config_def)
  have n: "local_now sample_config (body_world b) = Inr 1793707200" for b
    by (simp add: local_now_def sample_config_def body_world_def sample_world_def)
  have n': "local_now sample_config undecodable_world = Inr 1793707200"
    by (simp add: local_now_def sample_config_def undecodable_world_def sample_world_def)
  have t: "is_target_time sample_config (body_world b) = ([Log InfoLocalTime], Inr True)" for b
    by (simp add: is_target_time_def n sample_hour h)
  have f0: "fetch_jobs sample_config undecodable_world =
       ([HttpGet ''https://remoteok.io/api'', Log ErrorFetchFailed], Inr [])"
    by (simp add: fetch_jobs_def undecodable_world_def raise_for_status_def u)
  have f1: "fetch_jobs sample_config (body_world error_body) =
       ([HttpGet ''https://remoteok.io/api''], Inl TypeError)"
    by (simp add: fetch_jobs_def body_world_def raise_for_status_def slice_from_1_def
        error_body_def u)
  have f2: "fetch_jobs sample_config (body_world PNone) =
       ([HttpGet ''https://remoteok.io/api''], Inl TypeError)"
    by (simp add: fetch_jobs_def body_world_def raise_for_status_def slice_from_1_def u)
  have m0: "exit_status (main sample_config undecodable_world) = 0"
    using main_exit_status [OF s n'] by (simp add: f0)
  have m1: "main sample_config (body_world error_body) =
       \<lparr>exit_status = 1, trace = [Log InfoLocalTime, HttpGet ''https://remoteok.io/api'']\<rparr>"
    using s by (simp add: main_def t f1)
  have m2: "main sample_config (body_world PNone) =
       \<lparr>exit_status = 1, trace = [Log InfoLocalTime, HttpGet ''https://remoteok.io/api'']\<rparr>"
    using s by (simp add: main_def t f2)
  show ?thesis using f0 f1 f2 m0 m1 m2 by simp
qed

text \<open>
  C3. When the sender address or the sender credential is absent, \<open>main\<close> logs
  one line and ends with status 1, and the whole process, configuration loading
  included, ends with status 1 without an HTTP request or an SMTP call.
\<close>

theorem missing_secret_exits_1_before_network:
  "(SENDER_EMAIL cfg = None \<or> SENDER_PASSWORD cfg = None \<longrightarrow>
      main cfg w = \<lparr>exit_status = 1, trace = [Log ErrorSecretsMissing]\<rparr>)
   \<and> (environ ''SENDER_EMAIL'' = None \<or> environ ''SENDER_PASSWORD'' = None \<longrightarrow>
      exit_status (run py_int environ w) = 1
      \<and> filter is_network (trace (run py_int environ w)) = [])"
  by (auto simp: main_def secret_set_def run_def load_config_def split: option.splits)

theorem missing_secret_exits_1_before_network_witness:
  "SENDER_PASSWORD (sample_config\<lparr>SENDER_PASSWORD := None\<rparr>) = None
   \<and> main (sample_config\<lparr>SENDER_PASSWORD := None\<rparr>) (sample_world [acme_record, acme_record]) =
       \<lparr>exit_status = 1, trace = [Log ErrorSecretsMissing]\<rparr>
   \<and> [''SENDER_EMAIL'' \<mapsto> ''me@example.org''] ''SENDER_PASSWORD'' = None
   \<and> exit_status (run (\<lambda>s. Some 12) [''SENDER_EMAIL'' \<mapsto> ''me@example.org'']
        (sample_world [acme_record, acme_record])) = 1
   \<and> filter is_network (trace (run (\<lambda>s. Some 12) [''SENDER_EMAIL'' \<mapsto> ''me@example.org'']
        (sample_world [acme_record, acme_record]))) = []"
  using missing_secret_exits_1_before_network
    [of "sample_config\<lparr>SENDER_PASSWORD := None\<rparr>" "sample_world [acme_record, acme_record]"
        "[''SENDER_EMAIL'' \<mapsto> ''me@example.org'']" "\<lambda>s. Some 12"]
  by simp

text \<open>
  C4. The claim is that with both secrets set every run ends with status 0. At this
  input it does not: both secrets are set, the hour matches, the server answers 200
  with a feed whose second record has \<open>company\<close> \<open>null\<close>; \<open>.strip()\<close> on
  \<open>None\<close> raises outside the \<open>try\<close> block, nothing is sent and the status is 1.
  The same feed with \<open>position\<close> \<open>null\<close> instead, which \<open>or\<close> guards, ends with
  status 0.
\<close>

theorem null_company_record_ends_run_with_status_1:
  "secret_set (SENDER_EMAIL sample_config) \<and> secret_set (SENDER_PASSWORD sample_config)
   \<and> main sample_config (sample_world [PDict [], null_company_record]) =
       \<lparr>exit_status = 1, trace = [Log InfoLocalTime, HttpGet ''https://remoteok.io/api'']\<rparr>
   \<and> exit_status (main sample_config (sample_world [PDict [], null_position_record])) = 0"
proof -
  have s: "secret_set (SENDER_EMAIL sample_config)" "secret_set (SENDER_PASSWORD sample_config)"
    by (simp_all add: sample_config_def secret_set_def)
  have t: "is_target_time sample_config (sample_world raw) = ([Log InfoLocalTime], Inr True)" for raw
  proof -
    have "TARGET_HOUR sample_config = 12" by (simp add: sample_config_def)
    then show ?thesis by (simp add: is_target_time_def sample_local_now sample_hour)
  qed
  have u: "REMOTEOK_API sample_config = ''https://remoteok.io/api''" by (simp add: sample_config_def)
  have f1: "fetch_jobs sample_config (sample_world [PDict [], null_company_record])
      = ([HttpGet ''https://remoteok.io/api''], Inl AttributeError)"
    by (simp add: fetch_jobs_def sample_world_def sample_response_def raise_for_status_def
        slice_from_1_def normalize_samples u)
  have n: "normalize null_position_record = Inr null_position_posting"
    by (simp add: normalize_def val_strip_def py_or_def dict_get_def dict_get_default_def
      strip_def is_space_def null_position_record_def null_position_posting_def)
  have f2: "\<exists>ev js. fetch_jobs sample_config (sample_world [PDict [], null_position_record])
      = (ev, Inr js)"
    by (simp add: fetch_jobs_def sample_world_def sample_response_def raise_for_status_def
        slice_from_1_def n u)
  have m1: "main sample_config (sample_world [PDict [], null_company_record]) =
       \<lparr>exit_status = 1, trace = [Log InfoLocalTime, HttpGet ''https://remoteok.io/api'']\<rparr>"
    using s by (simp add: main_def t f1)
  from f2 obtain ev js where f3: "fetch_jobs sample_config (sample_world [PDict [], null_position_record])
      = (ev, Inr js)" by blast
  have m2: "exit_status (main sample_config (sample_world [PDict [], null_position_record])) = 0"
  proof -
    have "smtp_failure (sample_world [PDict [], null_position_record]) = None"
      by (simp add: sample_world_def)
    then show ?thesis using s by (simp add: main_def t f3 send_email_def sample_local_now)
  qed
  show ?thesis using s m1 m2 by simp
qed

text \<open>
  C5. When the local hour differs from the target hour, the trace of \<open>main\<close> has
  no HTTP request and no SMTP call; with both secrets set it is the two log lines and
  the status is 0.
\<close>

theorem time_gate_mismatch_no_network:
  assumes "local_now cfg w = Inr now" and "hour now \<noteq> TARGET_HOUR cfg"
  shows "filter is_network (trace (main cfg w)) = []
    \<and> (secret_set (SENDER_EMAIL cfg) \<and> secret_set (SENDER_PASSWORD cfg) \<longrightarrow>
         main cfg w = \<lparr>exit_status = 0, trace = [Log InfoLocalTime, Log InfoNotTargetHour]\<rparr>)"
  using assms by (simp add: main_def is_target_time_def)

theorem time_gate_mismatch_no_network_witness:
  "local_now (sample_config\<lparr>TARGET_HOUR := 9\<rparr>) (sample_world [acme_record, acme_record])
     = Inr 1793707200
   \<and> hour 1793707200 \<noteq> TARGET_HOUR (sample_config\<lparr>TARGET_HOUR := 9\<rparr>)
   \<and> secret_set (SENDER_EMAIL (sample_config\<lparr>TARGET_HOUR := 9\<rparr>))
   \<and> secret_set (SENDER_PASSWORD (sample_config\<lparr>TARGET_HOUR := 9\<rparr>))
   \<and> filter is_network
        (trace (main (sample_config\<lparr>TARGET_HOUR := 9\<rparr>) (sample_world [acme_record, acme_record]))) = []
   \<and> main (sample_config\<lparr>TARGET_HOUR := 9\<rparr>) (sample_world [acme_record, acme_record]) =
       \<lparr>exit_status = 0, trace = [Log InfoLocalTime, Log InfoNotTargetHour]\<rparr>"
proof -
  have n: "local_now (sample_config\<lparr>TARGET_HOUR := 9\<rparr>) (sample_world [acme_record, acme_record])
     = Inr 1793707200"
    by (simp add: local_now_def sample_config_def sample_world_def)
  have t: "hour 1793707200 \<noteq> TARGET_HOUR (sample_config\<lparr>TARGET_HOUR := 9\<rparr>)"
    by (simp add: hour_def)
  have s: "secret_set (SENDER_EMAIL (sample_config\<lparr>TARGET_HOUR := 9\<rparr>))"
    "secret_set (SENDER_PASSWORD (sample_config\<lparr>TARGET_HOUR := 9\<rparr>))"
    by (simp_all add: sample_config_def secret_set_def)
  show ?thesis using n t s time_gate_mismatch_no_network [OF n t] by simp
qed

text \<open>
  C6. For a decoded feed that is a list, \<open>fetch_jobs\<close> runs its loop on the
  elements from index 1 on and never looks at the element at index 0; a feed of
  fewer than two elements gives no posting; when the elements from index 1 on
  normalise, each of them is a candidate of the filter.
\<close>

theorem feed_index_0_skipped:
  assumes "http_get w (REMOTEOK_API cfg) = Some resp" and "\<not> raise_for_status resp"
    and "json resp = Some (PList raw)"
  shows "fetch_jobs cfg w = ([HttpGet (REMOTEOK_API cfg)], fetch_loop (KEYWORDS cfg) (drop 1 raw) [])
    \<and> (length raw < 2 \<longrightarrow> snd (fetch_jobs cfg w) = Inr [])
    \<and> (\<forall>ps. map normalize (drop 1 raw) = map Inr ps \<longrightarrow>
         snd (fetch_jobs cfg w) = Inr (filter (\<lambda>p. matches (KEYWORDS cfg) (title p)) ps))"
proof -
  have f: "fetch_jobs cfg w = ([HttpGet (REMOTEOK_API cfg)], fetch_loop (KEYWORDS cfg) (drop 1 raw) [])"
    using assms by (simp add: fetch_jobs_def slice_from_1_def)
  have "length raw < 2 \<Longrightarrow> drop 1 raw = []" by simp
  then have s: "length raw < 2 \<longrightarrow> snd (fetch_jobs cfg w) = Inr []" by (simp add: f)
  have "\<forall>ps. map normalize (drop 1 raw) = map Inr ps \<longrightarrow>
         snd (fetch_jobs cfg w) = Inr (filter (\<lambda>p. matches (KEYWORDS cfg) (title p)) ps)"
    using fetch_loop_filter[of "drop 1 raw" _ "KEYWORDS cfg" "[]"] by (simp add: f)
  with f s show ?thesis by blast
qed

theorem feed_index_0_skipped_witness:
  "http_get (sample_world [PInt 7, acme_record, chef_record]) (REMOTEOK_API sample_config)
     = Some (sample_response [PInt 7, acme_record, chef_record])
   \<and> \<not> raise_for_status (sample_response [PInt 7, acme_record, chef_record])
   \<and> json (sample_response [PInt 7, acme_record, chef_record])
       = Some (PList [PInt 7, acme_record, chef_record])
   \<and> map normalize (drop 1 [PInt 7, acme_record, chef_record]) = map Inr [acme_posting, chef_posting]
   \<and> normalize (PInt 7) = Inl AttributeError
   \<and> fetch_jobs sample_config (sample_world [PInt 7, acme_record, chef_record])
       = ([HttpGet ''https://remoteok.io/api''], Inr [acme_posting])"
proof -
  let ?raw = "[PInt 7, acme_record, chef_record]"
  have a: "http_get (sample_world ?raw) (REMOTEOK_API sample_config) = Some (sample_response ?raw)"
    by (simp add: sample_world_def)
  have b: "\<not> raise_for_status (sample_response ?raw)"
    by (simp add: raise_for_status_def sample_response_def)
  have c: "json (sample_response ?raw) = Some (PList ?raw)"
    by (simp add: sample_response_def)
  have d: "map normalize (drop 1 ?raw) = map Inr [acme_posting, chef_posting]"
    by (simp add: normalize_samples)
  have e: "normalize (PInt 7) = Inl AttributeError" by (simp add: normalize_def)
  have l: "fetch_loop (KEYWORDS sample_config) (drop 1 ?raw) [] = Inr [acme_posting]"
    unfolding sample_config_def acme_record_def chef_record_def acme_posting_def by code_simp
  have u: "REMOTEOK_API sample_config = ''https://remoteok.io/api''" by (simp add: sample_config_def)
  show ?thesis using a b c d e l feed_index_0_skipped [OF a b c] by (simp add: u)
qed

text \<open>
  C7. For the empty list of postings the body is exactly
  \<open>No matching jobs found today.\<close>, and that is the body handed to \<open>sendmail\<close>.
\<close>

theorem empty_list_body_is_fixed_sentence:
  "email_body str_of [] = ''No matching jobs found today.''
   \<and> (local_now cfg w = Inr now \<and> smtp_failure w = None \<longrightarrow>
        fst (send_email cfg w []) =
          [SmtpConnect, SmtpStarttls, SmtpLogin (SENDER_EMAIL cfg) (SENDER_PASSWORD cfg),
           SmtpSendmail (SENDER_EMAIL cfg) (RECEIVER_EMAIL cfg)
             \<lparr>stamp = now, body = ''No matching jobs found today.''\<rparr>,
           SmtpQuit, Log (InfoEmailSent 0)])"
  by (simp add: email_body_def send_email_def smtp_calls_def)

theorem empty_list_body_is_fixed_sentence_witness:
  "local_now sample_config (sample_world []) = Inr 1793707200
   \<and> smtp_failure (sample_world []) = None
   \<and> email_body (\<lambda>v. ''?'') [] = ''No matching jobs found today.''
   \<and> fst (send_email sample_config (sample_world []) []) =
          [SmtpConnect, SmtpStarttls, SmtpLogin (Some ''me@example.org'') (Some ''app-password''),
           SmtpSendmail (Some ''me@example.org'') (Some ''me@example.org'')
             \<lparr>stamp = 1793707200, body = ''No matching jobs found today.''\<rparr>,
           SmtpQuit, Log (InfoEmailSent 0)]"
proof -
  have n: "local_now sample_config (sample_world []) = Inr 1793707200"
    by (simp add: local_now_def sample_config_def sample_world_def)
  have f: "smtp_failure (sample_world []) = None" by (simp add: sample_world_def)
  have c: "SENDER_EMAIL sample_config = Some ''me@example.org''"
    "SENDER_PASSWORD sample_config = Some ''app-password''"
    "RECEIVER_EMAIL sample_config = Some ''me@example.org''"
    by (simp_all add: sample_config_def)
  show ?thesis
    using n f empty_list_body_is_fixed_sentence
      [of "\<lambda>v. ''?''" sample_config "sample_world []" 1793707200]
    by (simp add: c)
qed



text \<open>
  C9. A target hour below 0 or above 23 never matches: the time gate never returns
  true, and returns false whenever the local time can be computed. Loading the
  configuration accepts such a value as it is.
\<close>

theorem out_of_range_target_hour_never_matches:
  assumes "TARGET_HOUR cfg < 0 \<or> 23 < TARGET_HOUR cfg"
  shows "snd (is_target_time cfg w) \<noteq> Inr True
    \<and> (local_now cfg w = Inr now \<longrightarrow> is_target_time cfg w = ([Log InfoLocalTime], Inr False))
    \<and> (py_int (environ_get environ ''TARGET_HOUR'' ''12'') = Some (TARGET_HOUR cfg) \<longrightarrow>
         (\<exists>c. load_config py_int environ = Inr c \<and> TARGET_HOUR c = TARGET_HOUR cfg))"
proof -
  have "\<And>t. hour t \<noteq> TARGET_HOUR cfg" using assms hour_range by (metis not_less)
  then have "snd (is_target_time cfg w) \<noteq> Inr True
    \<and> (local_now cfg w = Inr now \<longrightarrow> is_target_time cfg w = ([Log InfoLocalTime], Inr False))"
    by (auto simp: is_target_time_def split: sum.splits)
  moreover have "py_int (environ_get environ ''TARGET_HOUR'' ''12'') = Some (TARGET_HOUR cfg) \<longrightarrow>
         (\<exists>c. load_config py_int environ = Inr c \<and> TARGET_HOUR c = TARGET_HOUR cfg)"
    by (simp add: load_config_def)
  ultimately show ?thesis by blast
qed

theorem out_of_range_target_hour_never_matches_witness:
  "(TARGET_HOUR (sample_config\<lparr>TARGET_HOUR := 24\<rparr>) < 0
      \<or> 23 < TARGET_HOUR (sample_config\<lparr>TARGET_HOUR := 24\<rparr>))
   \<and> local_now (sample_config\<lparr>TARGET_HOUR := 24\<rparr>) (sample_world []) = Inr 1793707200
   \<and> is_target_time (sample_config\<lparr>TARGET_HOUR := 24\<rparr>) (sample_world [])
       = ([Log InfoLocalTime], Inr False)
   \<and> (\<exists>c. load_config (\<lambda>s. Some 24) Map.empty = Inr c \<and> TARGET_HOUR c = 24)"
proof -
  have h: "TARGET_HOUR (sample_config\<lparr>TARGET_HOUR := 24\<rparr>) < 0
     \<or> 23 < TARGET_HOUR (sample_config\<lparr>TARGET_HOUR := 24\<rparr>)" by simp
  have n: "local_now (sample_config\<lparr>TARGET_HOUR := 24\<rparr>) (sample_world []) = Inr 1793707200"
    by (simp add: local_now_def sample_config_def sample_world_def)
  show ?thesis
    using h n out_of_range_target_hour_never_matches
      [OF h, of "sample_world []" 1793707200 "\<lambda>s. Some 24" Map.empty]
    by simp
qed



end
